theory Spec2Isabelle
  imports Complex_Main "HOL-Library.Sublist" "HOL-Library.List_Lexorder" "HOL-Library.AList"
begin

section \<open>Strings\<close>

text \<open>
  A Python \<open>str\<close> is a sequence of Unicode code points, and \<open>len\<close>, slicing and
  \<open>replace\<close> count code points. A string is therefore modelled as the list of its code
  points; \<open>u\<close> reads an ASCII literal. The code points that matter below are
  38 (\<open>&\<close>), 60 (\<open><\<close>), 62 (\<open>>\<close>), 34 (the double quote) and 39 (the single quote).
\<close>

type_synonym ustr = "nat list"

definition u :: "string \<Rightarrow> ustr" where
  "u s = map of_char s"

text \<open>\<open>s.replace(c, new)\<close> for a pattern \<open>c\<close> of one character.\<close>

definition replace_chr :: "nat \<Rightarrow> ustr \<Rightarrow> ustr \<Rightarrow> ustr" where
  "replace_chr c new s = concat (map (\<lambda>x. if x = c then new else [x]) s)"

text \<open>
  \<^verbatim>\<open>
  def esc(s):
      return (s.replace("&","&amp;").replace("<","&lt;").replace(">","&gt;")
               .replace('"',"&quot;").replace("'","&#39;"))
  \<close>
\<close>

definition esc :: "ustr \<Rightarrow> ustr" where
  "esc s = replace_chr 39 (u ''&#39;'') (replace_chr 34 (u ''&quot;'')
             (replace_chr 62 (u ''&gt;'') (replace_chr 60 (u ''&lt;'')
               (replace_chr 38 (u ''&amp;'') s))))"

text \<open>The five entities that \<open>esc\<close> produces.\<close>

definition entities :: "ustr list" where
  "entities = [u ''&amp;'', u ''&lt;'', u ''&gt;'', u ''&quot;'', u ''&#39;'']"

text \<open>What the five passes of \<open>esc\<close> do to one character (a proof device).\<close>

definition esc_chr :: "nat \<Rightarrow> ustr" where
  "esc_chr c = (if c = 38 then u ''&amp;'' else if c = 60 then u ''&lt;''
     else if c = 62 then u ''&gt;'' else if c = 34 then u ''&quot;''
     else if c = 39 then u ''&#39;'' else [c])"

section \<open>Files and directories\<close>

text \<open>
  File contents are byte strings. The output directory \<open>docs/files\<close> is an association
  list from entry names to contents, so it is finite by construction; \<open>dst.exists()\<close>
  looks a name up in it and \<open>dst.write_bytes\<close> stores an entry. Failures of the file
  system itself (permissions, a full disk) are outside the model.
\<close>

type_synonym bytes = "nat list"

type_synonym dir = "(ustr \<times> bytes) list"

type_synonym path = "ustr list"

definition exists_in :: "dir \<Rightarrow> ustr \<Rightarrow> bool" where
  "exists_in d n = (map_of d n \<noteq> None)"

definition write_bytes :: "dir \<Rightarrow> ustr \<Rightarrow> bytes \<Rightarrow> dir" where
  "write_bytes d n c = AList.update n c d"

definition entries :: "dir \<Rightarrow> ustr set" where
  "entries d = fst ` set d"

text \<open>
  The source folder is a tree of directories and regular files; the children of a
  directory are listed in the order in which the operating system enumerates them.
  \<open>lookup\<close> resolves a path relative to the root, \<open>rglob\<close> is \<open>SRC_DIR.rglob("*")\<close>
  (every path below the root, directories included).
\<close>

datatype node = File bytes | Dir "(ustr \<times> node) list"

fun lookup :: "node \<Rightarrow> path \<Rightarrow> node option" where
  "lookup t [] = Some t"
| "lookup (File c) (n # p) = None"
| "lookup (Dir es) (n # p) = (case map_of es n of None \<Rightarrow> None | Some t \<Rightarrow> lookup t p)"

fun rglob :: "node \<Rightarrow> path list" where
  "rglob (File c) = []"
| "rglob (Dir es) = concat (map (\<lambda>e. [fst e] # map ((#) (fst e)) (rglob (snd e))) es)"

definition is_file :: "node \<Rightarrow> path \<Rightarrow> bool" where
  "is_file t p = (case lookup t p of Some (File c) \<Rightarrow> True | _ \<Rightarrow> False)"

definition read_bytes :: "node \<Rightarrow> path \<Rightarrow> bytes" where
  "read_bytes t p = (case lookup t p of Some (File c) \<Rightarrow> c | _ \<Rightarrow> [])"

text \<open>A directory holds one entry per name.\<close>

fun wf_node :: "node \<Rightarrow> bool" where
  "wf_node (File c) = True"
| "wf_node (Dir es) = (distinct (map fst es) \<and> list_all (\<lambda>e. wf_node (snd e)) es)"

text \<open>
  \<open>[p for p in SRC_DIR.rglob("*") if p.is_file()]\<close>, then \<open>sorted(src_files)\<close>. Paths
  compare as the lists of their components, each component by code points; the components
  of \<open>SRC_DIR\<close> itself are a common prefix of all of them and are left out.
\<close>

definition src_files :: "node \<Rightarrow> path list" where
  "src_files t = filter (is_file t) (rglob t)"

definition sorted_src_files :: "node \<Rightarrow> path list" where
  "sorted_src_files t = sort (src_files t)"

section \<open>Path names\<close>

text \<open>The decimal digits of a number, as \<open>f"{i}"\<close> prints an integer \<open>i \<ge> 0\<close>.\<close>

function str_int :: "nat \<Rightarrow> ustr" where
  "str_int n = (if n < 10 then [48 + n] else str_int (n div 10) @ [48 + n mod 10])"
  by pat_completeness auto
termination
  by (relation "measure id") auto

text \<open>\<open>name.rfind(c)\<close>: the last index of the character \<open>c\<close>, if any.\<close>

fun rfind :: "nat \<Rightarrow> ustr \<Rightarrow> nat option" where
  "rfind c [] = None"
| "rfind c (x # xs) =
     (case rfind c xs of Some i \<Rightarrow> Some (Suc i) | None \<Rightarrow> if x = c then Some 0 else None)"

text \<open>
  \<open>Path.suffix\<close> and \<open>Path.stem\<close> of pathlib: with \<open>i = name.rfind('.')\<close>, the suffix is
  \<open>name[i:]\<close> when \<open>0 < i < len(name) - 1\<close> and empty otherwise; the stem is the rest.
\<close>

definition suffix_of :: "ustr \<Rightarrow> ustr" where
  "suffix_of name =
     (case rfind 46 name of
        Some i \<Rightarrow> if 0 < i \<and> i < length name - 1 then drop i name else []
      | None \<Rightarrow> [])"

definition stem_of :: "ustr \<Rightarrow> ustr" where
  "stem_of name =
     (case rfind 46 name of
        Some i \<Rightarrow> if 0 < i \<and> i < length name - 1 then take i name else name
      | None \<Rightarrow> name)"

definition name_of :: "path \<Rightarrow> ustr" where
  "name_of p = (if p = [] then [] else last p)"

text \<open>\<open>s.lstrip(".")\<close>.\<close>

definition lstrip_dot :: "ustr \<Rightarrow> ustr" where
  "lstrip_dot s = dropWhile (\<lambda>c. c = 46) s"

section \<open>The copier\<close>

text \<open>\<open>f"{src.stem}_{i}{src.suffix}"\<close>.\<close>

definition renamed :: "ustr \<Rightarrow> ustr \<Rightarrow> nat \<Rightarrow> ustr" where
  "renamed stem sfx i = stem @ u ''_'' @ str_int i @ sfx"

text \<open>
  \<^verbatim>\<open>
  dst = FILES / src.name
  i = 1
  while dst.exists():
      dst = FILES / f"{src.stem}_{i}{src.suffix}"
      i += 1
  \<close>
  The loop, on its state \<open>(dst, i)\<close>. It terminates because the directory is finite and
  the candidate names are pairwise different (proved below).
\<close>

function dedup_loop :: "dir \<Rightarrow> ustr \<Rightarrow> ustr \<Rightarrow> ustr \<Rightarrow> nat \<Rightarrow> ustr" where
  "dedup_loop d stem sfx dst i =
     (if exists_in d dst then dedup_loop d stem sfx (renamed stem sfx i) (i + 1)
      else dst)"
  by pat_completeness auto

definition dst_name :: "dir \<Rightarrow> ustr \<Rightarrow> ustr" where
  "dst_name d name = dedup_loop d (stem_of name) (suffix_of name) name 1"

text \<open>The numbers \<open>n \<ge> i\<close> whose candidate name is taken: the measure of the loop.\<close>

definition taken_from :: "dir \<Rightarrow> ustr \<Rightarrow> ustr \<Rightarrow> nat \<Rightarrow> nat set" where
  "taken_from d stem sfx i = {n. i \<le> n \<and> exists_in d (renamed stem sfx n)}"

definition digits_val :: "ustr \<Rightarrow> nat" where
  "digits_val ds = foldl (\<lambda>a d. 10 * a + (d - 48)) 0 ds"

section \<open>The library\<close>

text \<open>
  The standard library functions the program calls are parameters of the model:
  \<open>str.lower\<close>, \<open>read_text(encoding="utf-8", errors="replace")\<close>, \<open>str.splitlines\<close>,
  \<open>csv.reader\<close> over the file opened with an encoding, \<open>json.loads\<close> and
  \<open>json.dumps(ensure_ascii, indent)\<close> (\<open>None\<close> when they raise),
  \<open>mimetypes.guess_type\<close> and the float format \<open>f"{x:.1f}"\<close>.
  A CSV reader is lazy: it yields rows one by one and then either ends or raises; the
  stream records the rows it yields and the message \<open>str(e)\<close> of the exception, if any.
\<close>

datatype encoding = Utf8 | Utf8_sig

datatype csv_stream = Csv_stream "ustr list list" "ustr option"

record 'j lib =
  lower :: "ustr \<Rightarrow> ustr"
  read_text_replace :: "bytes \<Rightarrow> ustr"
  splitlines :: "ustr \<Rightarrow> ustr list"
  csv_reader :: "encoding \<Rightarrow> bytes \<Rightarrow> csv_stream"
  json_loads :: "ustr \<Rightarrow> 'j option"
  json_dumps :: "bool \<Rightarrow> nat \<Rightarrow> 'j \<Rightarrow> ustr option"
  guess_type :: "ustr \<Rightarrow> ustr option"
  fmt_1f :: "rat \<Rightarrow> ustr"

section \<open>The preview renderer\<close>

text \<open>
  \<^verbatim>\<open>
  rd = csv.reader(f); header = next(rd, []) or []
  for i, r in enumerate(rd):
      if i>=30: break
      rows.append(r)
  \<close>
  \<open>read_rows\<close> is the \<open>for\<close> loop over the rest of the stream; \<open>read_table\<close> is the body
  of one \<open>try\<close> block. Both return the exception raised, if any, and \<open>rows\<close> as it is
  then: \<open>rows\<close> is created before the first \<open>try\<close> and keeps what was appended to it
  when an exception interrupts the loop.
\<close>

fun read_rows :: "nat \<Rightarrow> ustr list list \<Rightarrow> ustr option \<Rightarrow> ustr list list \<Rightarrow>
    ustr option \<times> ustr list list" where
  "read_rows i [] exc rows = (exc, rows)"
| "read_rows i (r # rs) exc rows =
     (if i \<ge> 30 then (None, rows) else read_rows (i + 1) rs exc (rows @ [r]))"

fun read_table :: "csv_stream \<Rightarrow> ustr list list \<Rightarrow> ustr option \<times> ustr list \<times> ustr list list" where
  "read_table (Csv_stream [] exc) rows = (exc, [], rows)"
| "read_table (Csv_stream (h # rs) exc) rows =
     (case read_rows 0 rs exc rows of (e, rows') \<Rightarrow> (e, h, rows'))"

definition tr_html :: "ustr list \<Rightarrow> ustr" where
  "tr_html r = u ''<tr>'' @ concat (map (\<lambda>c. u ''<td>'' @ esc c @ u ''</td>'') r) @ u ''</tr>''"

definition table_html :: "ustr list \<Rightarrow> ustr list list \<Rightarrow> ustr" where
  "table_html header rows =
     u ''<div class=\"table-wrap\"><table><thead><tr>'' @
     concat (map (\<lambda>h. u ''<th>'' @ esc h @ u ''</th>'') header) @
     u ''</tr></thead><tbody>'' @ concat (map tr_html rows) @
     u ''</tbody></table><p class=\"note\">'' @ [20677, 39023, 31034, 21069] @ u '' '' @
     str_int (length rows) @ u '' '' @ [21015, 12290] @ u ''</p></div>''"

definition preview_csv :: "'j lib \<Rightarrow> bytes \<Rightarrow> ustr" where
  "preview_csv L content =
     (case read_table (csv_reader L Utf8 content) [] of
        (None, header, rows) \<Rightarrow> table_html header rows
      | (Some e1, header1, rows1) \<Rightarrow>
          (case read_table (csv_reader L Utf8_sig content) rows1 of
             (None, header, rows) \<Rightarrow> table_html header rows
           | (Some e, header2, rows2) \<Rightarrow>
               u ''<p class=\"note\">CSV '' @ [35712, 21462, 22833, 25943, 65306] @ esc e @ u ''</p>''))"

text \<open>
  \<^verbatim>\<open>
  try:
      raw = path.read_text(encoding="utf-8", errors="replace")
      data = json.loads(raw)
      pretty = json.dumps(data, ensure_ascii=False, indent=2)
  except Exception:
      pretty = path.read_text(encoding="utf-8", errors="replace")[:200_000]
  return f'<pre class="code">{esc(pretty)}</pre>'
  \<close>
\<close>

definition json_pretty :: "'j lib \<Rightarrow> bytes \<Rightarrow> ustr" where
  "json_pretty L content =
     (let raw = read_text_replace L content in
      case json_loads L raw of
        None \<Rightarrow> take 200000 (read_text_replace L content)
      | Some data \<Rightarrow>
          (case json_dumps L False 2 data of
             None \<Rightarrow> take 200000 (read_text_replace L content)
           | Some pretty \<Rightarrow> pretty))"

definition preview_json :: "'j lib \<Rightarrow> bytes \<Rightarrow> ustr" where
  "preview_json L content = u ''<pre class=\"code\">'' @ esc (json_pretty L content) @ u ''</pre>''"

text \<open>
  \<open>sep.join(xs)\<close>. In the text branch the separator is written \<open>"\\n"\<close> inside the
  replacement field of an f-string, where it is an ordinary string literal: a backslash
  (92) followed by \<open>n\<close> (110).
\<close>

fun join :: "ustr \<Rightarrow> ustr list \<Rightarrow> ustr" where
  "join sep [] = []"
| "join sep [x] = x"
| "join sep (x # y # ys) = x @ sep @ join sep (y # ys)"

definition preview_text :: "'j lib \<Rightarrow> bytes \<Rightarrow> ustr" where
  "preview_text L content =
     (let txt = take 200 (splitlines L (read_text_replace L content)) in
      u ''<pre class=\"code\">'' @ esc (join [92, 110] txt) @ u ''</pre>'')"

definition preview_for :: "'j lib \<Rightarrow> ustr \<Rightarrow> bytes \<Rightarrow> ustr \<Rightarrow> ustr" where
  "preview_for L name content rel_href =
     (let ext = lstrip_dot (lower L (suffix_of name)) in
      if ext \<in> {u ''png'', u ''jpg'', u ''jpeg'', u ''gif'', u ''svg'', u ''webp''} then
        u ''<img src=\"'' @ rel_href @ u ''\" alt=\"'' @ esc name @
        u ''\" style=\"max-width:100%;height:auto;border:1px solid #eee;border'' @
       u ''-radius:6px;\" loading=\"lazy\"/>''
      else if ext = u ''pdf'' then
        u ''<div class=\"pdf-wrap\"><iframe src=\"'' @ rel_href @
        u ''\" title=\"pdf\"></iframe><div class=\"note\">'' @
       [33509, 28961, 27861, 38928, 35261, 65292, 35531, 40670, 19979, 36617, 12290] @
       u ''</div></div>''
      else if ext = u ''csv'' then preview_csv L content
      else if ext = u ''json'' then preview_json L content
      else if ext \<in> {u ''txt'', u ''log'', u ''md''} then preview_text L content
      else u ''<p class=\"note\">'' @
       [27492, 27284, 26696, 22411, 21029, 26410, 25552, 20379, 38928, 35261, 12290] @
       u ''</p>'')"

section \<open>The page assembler\<close>

text \<open>
  \<^verbatim>\<open>
  def human_size(n):
      units = ["B","KB","MB","GB","TB"]
      x = float(n)
      for u in units:
          if x < 1024 or u == units[-1]:
              return f"{x:.1f}{u}"
          x /= 1024
  \<close>
  The value \<open>x\<close> is kept as a rational number; a float holds it exactly for every
  size below \<open>2 ^ 53\<close>, since the divisions are by a power of two. The units are
  pairwise different, so \<open>u == units[-1]\<close> holds at the last one only.
\<close>

fun human_size_loop :: "'j lib \<Rightarrow> ustr list \<Rightarrow> rat \<Rightarrow> ustr option" where
  "human_size_loop L [] x = None"
| "human_size_loop L (un # us) x =
     (if x < 1024 \<or> us = [] then Some (fmt_1f L x @ un) else human_size_loop L us (x / 1024))"

definition human_size :: "'j lib \<Rightarrow> nat \<Rightarrow> ustr" where
  "human_size L n =
     (case human_size_loop L [u ''B'', u ''KB'', u ''MB'', u ''GB'', u ''TB''] (of_nat n) of
        Some s \<Rightarrow> s | None \<Rightarrow> u ''None'')"

text \<open>\<open>rel = f"./files/{dst.name}"\<close>.\<close>

definition rel_of :: "ustr \<Rightarrow> ustr" where
  "rel_of dst = u ''./files/'' @ dst"

text \<open>\<open>kind = mime or "application/octet-stream"\<close>.\<close>

definition kind_of :: "'j lib \<Rightarrow> ustr \<Rightarrow> ustr" where
  "kind_of L dst =
     (case guess_type L dst of
        None \<Rightarrow> u ''application/octet-stream''
      | Some mime \<Rightarrow> if mime = [] then u ''application/octet-stream'' else mime)"

text \<open>\<open>dst.suffix.lstrip('.').lower() or 'file'\<close>.\<close>

definition badge_of :: "'j lib \<Rightarrow> ustr \<Rightarrow> ustr" where
  "badge_of L dst =
     (let b = lower L (lstrip_dot (suffix_of dst)) in if b = [] then u ''file'' else b)"

text \<open>The card of one copied file, as the f-string of \<open>main\<close> builds it.\<close>

definition card_html :: "'j lib \<Rightarrow> ustr \<Rightarrow> bytes \<Rightarrow> ustr" where
  "card_html L dst content =
     [10] @ u ''<article class=\"card\">'' @ [10] @ u ''  <div class=\"meta\">'' @ [10] @
       u ''    <div><span class=\"badge\">'' @ esc (badge_of L dst) @
     u ''</span></div>'' @ [10] @ u ''    <div><b>'' @ [27284, 21517] @ u ''</b>'' @ esc dst @
     u ''</div>'' @ [10] @ u ''    <div><b>'' @ [22823, 23567] @ u ''</b>'' @ human_size L (length content) @
     u ''</div>'' @ [10] @ u ''    <div><b>MIME</b>'' @ esc (kind_of L dst) @
     u ''</div>'' @ [10] @ u ''  </div>'' @ [10] @ u ''  '' @ preview_for L dst content (rel_of dst) @
     [10] @ u ''  <div><a class=\"btn\" href=\"'' @ rel_of dst @
     u ''\" download>'' @ [19979, 36617] @ u ''</a></div>'' @ [10] @ u ''</article>'' @
       [10]"

text \<open>
  One pass of the \<open>for\<close> loop of \<open>main\<close>: choose the destination name, copy the bytes,
  build the card from the copy. The size is that of the bytes just written, and the
  preview reads them back. The destination name is kept beside the card.
\<close>

definition copy_one :: "'j lib \<Rightarrow> node \<Rightarrow> path \<Rightarrow> dir \<Rightarrow> dir \<times> ustr \<times> ustr" where
  "copy_one L t src d =
     (let dst = dst_name d (name_of src);
          content = read_bytes t src
      in (write_bytes d dst content, dst, card_html L dst content))"

fun copy_files :: "'j lib \<Rightarrow> node \<Rightarrow> path list \<Rightarrow> dir \<Rightarrow> (ustr \<times> ustr) list \<Rightarrow>
    dir \<times> (ustr \<times> ustr) list" where
  "copy_files L t [] d cards = (d, cards)"
| "copy_files L t (src # srcs) d cards =
     (case copy_one L t src d of
        (d', dst, html) \<Rightarrow> copy_files L t srcs d' (cards @ [(dst, html)]))"

section \<open>The pipeline\<close>

text \<open>
  What the program reads and writes besides the source folder: the directory
  \<open>docs/files\<close> (\<open>None\<close> while it does not exist), the stylesheet, the page
  \<open>docs/index.html\<close> and the lines printed.
\<close>

record fs =
  files :: "dir option"
  styles_css :: "ustr option"
  index_html :: "ustr option"
  stdout :: "ustr list"

text \<open>The entries of \<open>docs/files\<close>: none while the directory does not exist.\<close>

definition listing :: "fs \<Rightarrow> dir" where
  "listing s = (case files s of None \<Rightarrow> [] | Some d \<Rightarrow> d)"

text \<open>\<open>FILES.mkdir(parents=True, exist_ok=True)\<close>: an existing directory is kept as it is.\<close>

definition ensure_dirs :: "fs \<Rightarrow> fs" where
  "ensure_dirs s = s\<lparr>files := Some (listing s)\<rparr>"

definition css_text :: ustr where
  "css_text =
     u '':root { --fg:#111; --bg:#fff; --muted:#666; --accent:#0b63f6; --'' @
     u ''line:#e5e5e5; }'' @ [10] @ u ''* { box-sizing:border-box; }'' @ [10] @
     u ''html, body { margin:0; padding:0; font-family:-apple-system,Blin'' @
     u ''kMacSystemFont,\"Segoe UI\",Roboto,\"Noto Sans TC\",Arial,sans-serif'' @
     u ''; background:var(--bg); color:var(--fg); }'' @ [10] @
     u ''header { position:sticky; top:0; background:#fff; border-bottom:'' @
     u ''1px solid var(--line); padding:12px 16px; }'' @ [10] @
     u ''h1 { margin:0; font-size:20px; }'' @ [10] @
     u ''main { max-width:1100px; margin:20px auto; padding:0 16px 48px; '' @ u ''}'' @
     [10] @ u ''.note { color:var(--muted); font-size:12px; }'' @ [10] @
     u ''.grid { display:grid; grid-template-columns:repeat(auto-fit,minm'' @
     u ''ax(280px,1fr)); gap:14px; }'' @ [10] @
     u ''.card { border:1px solid var(--line); border-radius:10px; paddin'' @
     u ''g:12px; background:#fff; overflow:hidden; display:flex; flex-dir'' @
     u ''ection:column; gap:8px; }'' @ [10] @
     u ''.meta { font-size:13px; color:#333; line-height:1.4; }'' @ [10] @
     u ''.meta b { display:inline-block; min-width:82px; color:#000; }'' @ [10] @
     u ''.btn { display:inline-block; padding:7px 10px; border:1px solid '' @
     u ''var(--accent); color:var(--accent); border-radius:6px; text-deco'' @
     u ''ration:none; }'' @ [10] @
     u ''.table-wrap { overflow:auto; border:1px solid var(--line); borde'' @
     u ''r-radius:8px; }'' @ [10] @
     u ''table { border-collapse:collapse; width:100%; font-size:13px; }'' @ [10] @
     u ''thead { background:#fafafa; }'' @ [10] @
     u ''th,td { border-bottom:1px solid var(--line); padding:6px 8px; wh'' @
     u ''ite-space:nowrap; text-align:left; }'' @ [10] @
     u ''pre.code { background:#0d1117; color:#c9d1d9; padding:12px; bord'' @
     u ''er-radius:8px; overflow:auto; font-size:12px; }'' @ [10] @
     u ''.pdf-wrap { border:1px solid var(--line); border-radius:8px; ove'' @
     u ''rflow:hidden; }'' @ [10] @
     u ''.pdf-wrap iframe { width:100%; height:420px; border:0; }'' @ [10] @
     u ''.badge { display:inline-block; font-size:11px; padding:2px 6px; '' @
     u ''border-radius:999px; background:#f3f3f3; border:1px solid var(--'' @
     u ''line); }'' @ [10]"

definition write_css :: "fs \<Rightarrow> fs" where
  "write_css s = s\<lparr>styles_css := Some css_text\<rparr>"

definition not_found_page :: "ustr \<Rightarrow> ustr" where
  "not_found_page src_dir =
     u ''<!doctype html><meta charset='' @ [39] @ u ''utf-8'' @ [39] @ u ''><link rel='' @
       [39] @ u ''stylesheet'' @ [39] @ u '' href='' @ [39] @
       u ''./site_assets/styles.css'' @ [39] @ u ''>'' @
     u ''<body><main><h1>'' @ [36039, 26009, 22846, 19981, 23384, 22312] @
       u ''</h1><p class='' @ [39] @ u ''note'' @ [39] @ u ''>'' @
       [25214, 19981, 21040, 20358, 28304, 36039, 26009, 22846, 65306] @ u ''<code>'' @ esc src_dir @
     u ''</code></p></main></body>''"

definition html_page :: "ustr \<Rightarrow> ustr \<Rightarrow> ustr list \<Rightarrow> ustr" where
  "html_page src_dir updated cards =
     u ''<!doctype html>'' @ [10] @ u ''<html lang=\"zh-Hant\">'' @ [10] @
       u ''<meta charset=\"utf-8\"/>'' @ [10] @
       u ''<meta name=\"viewport\" content=\"width=device-width,initial-scale='' @
       u ''1\"/>'' @ [10] @ u ''<title>'' @
       [36039, 26009, 22846, 20839, 23481, 32317, 35261] @ u ''</title>'' @ [10] @
       u ''<link rel=\"stylesheet\" href=\"./site_assets/styles.css\"/>'' @ [10] @
       u ''<body>'' @ [10] @ u ''<header><h1>'' @
       [36039, 26009, 22846, 20839, 23481, 32317, 35261] @ u ''</h1></header>'' @ [10] @
       u ''<main>'' @ [10] @ u ''  <p class=\"note\">'' @
       [20358, 28304, 36039, 26009, 22846, 65306] @ u ''<code>'' @ esc src_dir @
     u ''</code>'' @ [65307, 26356, 26032, 26178, 38291, 65306] @ updated @
     u ''</p>'' @ [10] @ u ''  <section class=\"grid\">'' @ [10] @ u ''    '' @
     (if cards \<noteq> [] then concat cards
      else u ''<p class='' @ [39] @ u ''note'' @ [39] @ u ''>'' @
       [36039, 26009, 22846, 30446, 21069, 27794, 26377, 27284, 26696, 12290] @ u ''</p>'') @
     [10] @ u ''  </section>'' @ [10] @ u ''</main>'' @ [10] @ u ''</body>'' @ [10] @
       u ''</html>''"

text \<open>
  \<open>main\<close>, given the library, the text of \<open>SRC_DIR\<close>, the source folder (\<open>None\<close> when
  the path does not exist), the formatted time of the run and the state of the output.
\<close>

definition main :: "'j lib \<Rightarrow> ustr \<Rightarrow> node option \<Rightarrow> ustr \<Rightarrow> fs \<Rightarrow> fs" where
  "main L src_dir src updated s0 =
     (let s = write_css (ensure_dirs s0) in
      case src of
        None \<Rightarrow>
          s\<lparr>index_html := Some (not_found_page src_dir),
            stdout := stdout s @ [u ''Source folder not found: '' @ src_dir]\<rparr>
      | Some t \<Rightarrow>
          (case copy_files L t (sorted_src_files t) (listing s) [] of
             (d, cards) \<Rightarrow>
               s\<lparr>files := Some d,
                 index_html := Some (html_page src_dir updated (map snd cards)),
                 stdout := stdout s @ [u ''[OK] Wrote docs/index.html from '' @ src_dir]\<rparr>))"

text \<open>The destination names chosen by a run that starts from the directory \<open>d\<close>, in order.\<close>

definition copied_names :: "'j lib \<Rightarrow> node \<Rightarrow> dir \<Rightarrow> ustr list" where
  "copied_names L t d = map fst (snd (copy_files L t (sorted_src_files t) d []))"

text \<open>
  A stand-in for the library, to run the model on concrete inputs: ASCII lower-casing,
  ASCII decoding, no line splitting, an empty CSV stream, a JSON parser that rejects
  everything, no MIME guess and a constant size format.
\<close>

definition demo_lib :: "unit lib" where
  "demo_lib = \<lparr>
     lower = map (\<lambda>c. if 65 \<le> c \<and> c \<le> 90 then c + 32 else c),
     read_text_replace = map (\<lambda>b. if b < 128 then b else 65533),
     splitlines = (\<lambda>s. [s]),
     csv_reader = (\<lambda>enc b. Csv_stream [] None),
     json_loads = (\<lambda>s. None),
     json_dumps = (\<lambda>a i j. None),
     guess_type = (\<lambda>n. None),
     fmt_1f = (\<lambda>x. u ''0.0'')\<rparr>"
section \<open>Escaping\<close>

lemma replace_chr_Nil: "replace_chr c new [] = []"
  by (simp add: replace_chr_def)

lemma replace_chr_Cons:
  "replace_chr c new (x # xs) = (if x = c then new else [x]) @ replace_chr c new xs"
  by (simp add: replace_chr_def)

lemma replace_chr_append:
  "replace_chr c new (xs @ ys) = replace_chr c new xs @ replace_chr c new ys"
  by (simp add: replace_chr_def)

lemma esc_Nil: "esc [] = []"
  by (simp add: esc_def replace_chr_Nil)

lemma esc_Cons: "esc (x # xs) = esc_chr x @ esc xs"
  by (simp add: esc_def esc_chr_def replace_chr_Cons replace_chr_append replace_chr_Nil u_def)

lemma esc_append: "esc (xs @ ys) = esc xs @ esc ys"
  by (simp add: esc_def replace_chr_append)

lemma esc_concat: "esc s = concat (map esc_chr s)"
  by (induction s) (simp_all add: esc_Nil esc_Cons)

lemma esc_chr_set: "c \<in> set (esc_chr x) \<Longrightarrow> c \<notin> {60, 62, 34, 39}"
  by (auto simp: esc_chr_def u_def split: if_splits)

lemma esc_no_markup: "c \<in> set (esc s) \<Longrightarrow> c \<notin> {60, 62, 34, 39}"
  by (induction s) (auto simp: esc_Nil esc_Cons dest: esc_chr_set)

lemma esc_chr_amp:
  "i < length (esc_chr x) \<Longrightarrow> esc_chr x ! i = 38 \<Longrightarrow> i = 0 \<and> esc_chr x \<in> set entities"
  by (auto simp: esc_chr_def u_def entities_def nth_Cons' split: if_splits)

lemma esc_amp_entity:
  "i < length (esc s) \<Longrightarrow> esc s ! i = 38 \<Longrightarrow> \<exists>e \<in> set entities. prefix e (drop i (esc s))"
proof (induction s arbitrary: i)
  case Nil
  then show ?case by (simp add: esc_Nil)
next
  case (Cons x xs)
  show ?case
  proof (cases "i < length (esc_chr x)")
    case True
    with Cons.prems have "esc_chr x ! i = 38"
      by (simp add: esc_Cons nth_append)
    with True have "i = 0" "esc_chr x \<in> set entities"
      using esc_chr_amp by blast+
    then show ?thesis
      by (auto simp: esc_Cons intro!: bexI[of _ "esc_chr x"])
  next
    case False
    define j where "j = i - length (esc_chr x)"
    from False Cons.prems have j: "j < length (esc xs)" "esc xs ! j = 38"
      by (simp_all add: esc_Cons nth_append j_def)
    from Cons.IH[OF j] obtain e where "e \<in> set entities" "prefix e (drop j (esc xs))"
      by blast
    moreover have "drop i (esc (x # xs)) = drop j (esc xs)"
      using False by (simp add: esc_Cons j_def)
    ultimately show ?thesis by auto
  qed
qed

lemma esc_chr_hd:
  "esc_chr x = a # r \<Longrightarrow> esc_chr y = b # r' \<Longrightarrow> a # r @ t = b # r' @ t' \<Longrightarrow> x = y"
  by (auto simp: esc_chr_def u_def split: if_splits)

lemma esc_chr_ne: "esc_chr x \<noteq> []"
  by (simp add: esc_chr_def u_def)

lemma esc_eq_imp_eq: "esc s = esc t \<Longrightarrow> s = t"
proof (induction s arbitrary: t)
  case Nil
  then show ?case by (cases t) (auto simp: esc_Nil esc_Cons esc_chr_ne)
next
  case (Cons x xs)
  show ?case
  proof (cases t)
    case Nil
    with Cons.prems show ?thesis by (auto simp: esc_Nil esc_Cons esc_chr_ne)
  next
    case (Cons y ys)
    obtain a r where xr: "esc_chr x = a # r"
      using esc_chr_ne by (cases "esc_chr x") auto
    obtain b r' where yr: "esc_chr y = b # r'"
      using esc_chr_ne by (cases "esc_chr y") auto
    from Cons.prems Cons have eq: "esc_chr x @ esc xs = esc_chr y @ esc ys"
      by (simp add: esc_Cons)
    then have "x = y"
      using esc_chr_hd[OF xr yr, of "esc xs" "esc ys"] xr yr by simp
    with eq have "esc xs = esc ys" by simp
    with Cons.IH have "xs = ys" by blast
    with \<open>x = y\<close> Cons show ?thesis by simp
  qed
qed

text \<open>
  Claim C10. For every string \<open>s\<close>, \<open>esc s\<close> contains none of the characters
  \<open><\<close> (60), \<open>>\<close> (62), double quote (34) and single quote (39); every \<open>&\<close> (38) in
  \<open>esc s\<close> is the first character of one of the five entities; and \<open>esc\<close> is injective.
\<close>

theorem esc_safe:
  "(\<forall>c \<in> {60, 62, 34, 39}. c \<notin> set (esc s)) \<and>
   (\<forall>i < length (esc s). esc s ! i = 38 \<longrightarrow>
      (\<exists>e \<in> set entities. prefix e (drop i (esc s)))) \<and>
   inj esc"
  using esc_no_markup[of _ s] esc_amp_entity[of _ s] esc_eq_imp_eq
  by (auto simp: inj_def)

text \<open>
  At the input \<open><&lt;\<close>: the entity already present is escaped again, since the ampersand
  is replaced first.
\<close>

theorem esc_safe_witness:
  "esc (u ''<&lt;'') = u ''&lt;&amp;lt;'' \<and>
   60 \<notin> set (esc (u ''<&lt;'')) \<and>
   (\<exists>e \<in> set entities. prefix e (drop 4 (esc (u ''<&lt;'')))) \<and>
   inj esc"
proof -
  have v: "esc (u ''<&lt;'') = u ''&lt;&amp;lt;''"
    by (simp add: esc_def replace_chr_def u_def)
  have i: "4 < length (esc (u ''<&lt;''))" "esc (u ''<&lt;'') ! 4 = 38"
    by (simp_all add: v) (simp_all add: u_def)
  from esc_safe[of "u ''<&lt;''"] i v show ?thesis by blast
qed

section \<open>The renaming loop\<close>

lemma digits_val_str_int: "digits_val (str_int n) = n"
proof (induction n rule: str_int.induct)
  case (1 n)
  show ?case
  proof (cases "n < 10")
    case True
    then show ?thesis by (simp add: digits_val_def)
  next
    case False
    with 1 have "digits_val (str_int (n div 10)) = n div 10" by simp
    with False show ?thesis
      by (subst str_int.simps) (simp add: digits_val_def)
  qed
qed

lemma inj_str_int: "inj str_int"
  by (rule inj_on_inverseI[where g = digits_val]) (rule digits_val_str_int)

lemma inj_renamed: "inj (renamed stem sfx)"
  using inj_str_int by (auto simp: inj_def renamed_def)

lemma finite_taken: "finite {n. exists_in d (renamed stem sfx n)}"
proof -
  have "{n. exists_in d (renamed stem sfx n)} = renamed stem sfx -` (fst ` set d)"
    by (auto simp: exists_in_def map_of_eq_None_iff)
  moreover have "finite (renamed stem sfx -` (fst ` set d))"
    by (rule finite_vimageI) (simp_all add: inj_renamed)
  ultimately show ?thesis by simp
qed

lemma finite_taken_from: "finite (taken_from d stem sfx i)"
  by (rule finite_subset[OF _ finite_taken[of d stem sfx]]) (auto simp: taken_from_def)

lemma taken_from_Suc:
  "taken_from d stem sfx i =
     (if exists_in d (renamed stem sfx i) then insert i (taken_from d stem sfx (Suc i))
      else taken_from d stem sfx (Suc i))"
  by (auto simp: taken_from_def Suc_le_eq le_less)

lemma card_taken_from:
  "card (taken_from d stem sfx i) =
     (if exists_in d (renamed stem sfx i) then 1 else 0) + card (taken_from d stem sfx (Suc i))"
proof -
  have "i \<notin> taken_from d stem sfx (Suc i)" by (simp add: taken_from_def)
  then show ?thesis
    by (subst taken_from_Suc) (simp add: finite_taken_from)
qed

termination dedup_loop
proof (relation "measure (\<lambda>(d, stem, sfx, dst, i).
        (if exists_in d dst then 1 else 0) + card (taken_from d stem sfx i))", goal_cases)
  case 1
  show ?case by simp
next
  case (2 d stem sfx dst i)
  then show ?case
    using card_taken_from[of d stem sfx i] by simp
qed

lemma dedup_loop_fresh: "\<not> exists_in d (dedup_loop d stem sfx dst i)"
  by (induction d stem sfx dst i rule: dedup_loop.induct) (subst dedup_loop.simps, simp)

lemma free_number_exists: "\<exists>n\<ge>i. \<not> exists_in d (renamed stem sfx n)"
proof (rule ccontr)
  assume "\<not> ?thesis"
  then have "{n. i \<le> n} \<subseteq> taken_from d stem sfx i"
    by (auto simp: taken_from_def)
  then have "finite {n. i \<le> n}"
    using finite_taken_from finite_subset by blast
  moreover have "infinite {n. i \<le> n}"
    using infinite_Ici[of i] by (simp add: atLeast_def)
  ultimately show False by blast
qed

lemma dedup_loop_least:
  "exists_in d dst \<Longrightarrow>
   dedup_loop d stem sfx dst i =
     renamed stem sfx (LEAST n. i \<le> n \<and> \<not> exists_in d (renamed stem sfx n))"
proof (induction d stem sfx dst i rule: dedup_loop.induct)
  case (1 d stem sfx dst i)
  let ?P = "\<lambda>j n. j \<le> n \<and> \<not> exists_in d (renamed stem sfx n)"
  show ?case
  proof (cases "exists_in d (renamed stem sfx i)")
    case False
    then have "(LEAST n. ?P i n) = i"
      by (intro Least_equality) auto
    with False 1 show ?thesis
      by (subst dedup_loop.simps) (subst dedup_loop.simps, simp)
  next
    case True
    have "?P i n = ?P (i + 1) n" for n
      using True by (cases "n = i") auto
    then have "(LEAST n. ?P i n) = (LEAST n. ?P (i + 1) n)" by simp
    with True 1 show ?thesis
      by (subst dedup_loop.simps) simp
  qed
qed

text \<open>
  Claim C9. Whatever names the output files directory holds (it is finite) and whatever
  the stem and suffix of the source file, some number \<open>n \<ge> 1\<close> gives a name
  \<open>{stem}_{n}{suffix}\<close> that is not taken, and the renaming loop, which is a total
  function, returns a destination name that is not in the directory.
\<close>

theorem rename_loop_terminates:
  "(\<exists>n\<ge>1. \<not> exists_in d (renamed stem sfx n)) \<and>
   \<not> exists_in d (dedup_loop d stem sfx name 1)"
  using free_number_exists[of 1 d stem sfx] dedup_loop_fresh[of d stem sfx name 1] by blast

theorem rename_loop_terminates_witness:
  "dedup_loop [(u ''a.txt'', [1]), (u ''a_1.txt'', [2])] (u ''a'') (u ''.txt'') (u ''a.txt'') 1
     = u ''a_2.txt'' \<and>
   \<not> exists_in [(u ''a.txt'', [1]), (u ''a_1.txt'', [2])]
     (dedup_loop [(u ''a.txt'', [1]), (u ''a_1.txt'', [2])] (u ''a'') (u ''.txt'') (u ''a.txt'') 1)"
proof -
  have "dedup_loop [(u ''a.txt'', [1]), (u ''a_1.txt'', [2])] (u ''a'') (u ''.txt'') (u ''a.txt'') 1
     = u ''a_2.txt''"
    by (simp add: dedup_loop.simps exists_in_def renamed_def u_def)
  with rename_loop_terminates[of "[(u ''a.txt'', [1]), (u ''a_1.txt'', [2])]" "u ''a''" "u ''.txt''" "u ''a.txt''"]
  show ?thesis by blast
qed

end
